theory Spec2Isabelle
  imports Main "HOL-Library.Word" "HOL-Library.Sublist"
begin

section \<open>Values of Go's empty interface\<close>

text \<open>
  The repository passes data around as \<^verbatim>\<open>interface{}\<close>. A value of that type is
  one of the dynamic types below. \<open>VTuple\<close> is \<^verbatim>\<open>cborrpc.PythonTuple{Items: ...}\<close>,
  \<open>VSlice\<close> is \<^verbatim>\<open>[]interface{}\<close>, \<open>VMap\<close> is a nested \<^verbatim>\<open>map[string]interface{}\<close>,
  \<open>VTime\<close> is a \<^verbatim>\<open>time.Time\<close> read as nanoseconds since the epoch, and \<open>VOther\<close>
  stands for a value of any other dynamic type (a float, a UUID, a pointer).
  A slice is a list: the nil slice and the empty slice are both \<open>[]\<close>.
\<close>

datatype val =
    VNil
  | VBool bool
  | VInt int
  | VBytes "nat list"
  | VString string
  | VSlice "val list"
  | VTuple "val list"
  | VMap "(string \<times> val) list"
  | VTime int
  | VOther nat

section \<open>cborrpc/cleanup.go\<close>

text \<open>
  \<^verbatim>\<open>Detuplify\<close> returns the pair (slice, ok); on failure the slice is nil.
  The two type assertions are tried in the order of the source.
\<close>

fun Detuplify :: "val \<Rightarrow> val list \<times> bool" where
  "Detuplify (VTuple items) = (items, True)"
| "Detuplify (VSlice s) = (s, True)"
| "Detuplify obj = ([], False)"

definition SloppyDetuplify :: "val \<Rightarrow> val list" where
  "SloppyDetuplify obj =
     (case Detuplify obj of
        (s, True) \<Rightarrow> s
      | (_, False) \<Rightarrow> [obj])"

section \<open>Errors\<close>

text \<open>
  Go's \<^verbatim>\<open>error\<close> values. The first three are the coordinate package's
  \<^verbatim>\<open>ErrNoWorkSpecName\<close>, \<^verbatim>\<open>ErrBadWorkSpecName\<close> and \<^verbatim>\<open>ErrNoSuchWorkSpec{Name: n}\<close>.
  \<open>PqError c\<close> is a \<^verbatim>\<open>*pq.Error\<close> whose \<^verbatim>\<open>Code\<close> is \<open>c\<close>; \<open>OtherError\<close> is any
  other error value, told apart by its message. A nil error is \<open>None\<close>.
\<close>

datatype error =
    ErrNoWorkSpecName
  | ErrBadWorkSpecName
  | ErrNoSuchWorkSpec string
  | PqError string
  | OtherError string

section \<open>coordinate/coordinatetest/helpers.go: the SameTime checker\<close>

text \<open>
  \<^verbatim>\<open>time.Duration\<close> is an \<^verbatim>\<open>int64\<close> count of nanoseconds, and
  \<^verbatim>\<open>time.Microsecond\<close> is 1000 of them.
\<close>

type_synonym Duration = "64 word"

definition Microsecond :: Duration where
  "Microsecond = 1000"

text \<open>
  \<^verbatim>\<open>Time.Sub\<close> belongs to Go's standard library. It returns the duration \<open>t - u\<close>, and the
  minimum or maximum duration when the difference does not fit an \<^verbatim>\<open>int64\<close>. Times are
  instants counted in nanoseconds; monotonic clock readings are left out.
\<close>

definition Sub :: "int \<Rightarrow> int \<Rightarrow> Duration" where
  "Sub t u =
     (let d = t - u
      in if d < - (2 ^ 63) then word_of_int (- (2 ^ 63))
         else if 2 ^ 63 - 1 < d then word_of_int (2 ^ 63 - 1)
         else word_of_int d)"

text \<open>
  \<^verbatim>\<open>sameTimeChecker.Check\<close> returns (result, error string). The comparisons of the two
  durations are signed.
\<close>

definition sameTimeChecker_Check :: "val list \<Rightarrow> string list \<Rightarrow> bool \<times> string" where
  "sameTimeChecker_Check params names =
     (if length params \<noteq> 2 then (False, ''incorrect number of parameters to SameTime check'')
      else case params ! 0 of
        VTime obtained \<Rightarrow>
          (case params ! 1 of
             VTime expected \<Rightarrow>
               (let maxDelta = (1 :: Duration) * Microsecond;
                    delta = Sub obtained expected
                in (delta <s maxDelta \<and> - maxDelta <s delta, ''''))
           | _ \<Rightarrow> (False, ''non-Time expected value''))
      | _ \<Rightarrow> (False, ''non-Time obtained value''))"

section \<open>The PostgreSQL backend\<close>

subsection \<open>NewWithClock\<close>




subsection \<open>withTx\<close>

text \<open>
  \<open>withTx\<close> talks to the database, so the model is given the database's answers: one
  \<open>txEnv\<close> for each pass through the loop, holding what \<^verbatim>\<open>Begin\<close>, the
  \<^verbatim>\<open>SET TRANSACTION\<close> statement, the closure \<open>f\<close>, \<^verbatim>\<open>Commit\<close> and \<^verbatim>\<open>Rollback\<close>
  answer on that pass. The closure may run differently on each pass, and it may panic.
  The model returns what \<open>withTx\<close> returns together with the calls it made, in order.
  It returns \<open>None\<close> when the answers run out while the loop is still retrying.
\<close>

datatype outcome = Returns "error option" | Panics

record txEnv =
  beginR :: "error option"
  execR :: "error option"
  fR :: outcome
  commitR :: "error option"
  rollbackR :: "error option"

datatype event = Begin | Exec string | CallF | Commit | Rollback

datatype result = Returned "error option" | Panicked

definition setIsolation :: event where
  "setIsolation = Exec ''SET TRANSACTION ISOLATION LEVEL REPEATABLE READ''"

text \<open>
  The deferred function, entered with a transaction that is not nil: it rolls back unless
  \<open>done\<close> is set, and keeps the rollback's error only when there is none yet.
\<close>

definition deferred :: "bool \<Rightarrow> error option \<Rightarrow> txEnv \<Rightarrow> event list \<Rightarrow> result \<times> event list" where
  "deferred done err e tr =
     (if \<not> done
      then (Returned (if err = None then rollbackR e else err), tr @ [Rollback])
      else (Returned err, tr))"

text \<open>The type assertion \<^verbatim>\<open>err.(*pq.Error)\<close> followed by the test of the code.\<close>

fun isSerializationFailure :: "error option \<Rightarrow> bool" where
  "isSerializationFailure (Some (PqError code)) = (code = ''40001'')"
| "isSerializationFailure _ = False"

text \<open>
  The loop. \<open>done\<close> is the variable of the source: it is set when \<^verbatim>\<open>Commit\<close> is called and
  never cleared. When \<^verbatim>\<open>Begin\<close> fails the transaction is nil and the deferred function
  does nothing. When \<open>f\<close> panics the deferred function runs and the panic goes on.
\<close>

fun withTx_loop :: "bool \<Rightarrow> event list \<Rightarrow> txEnv list \<Rightarrow> (result \<times> event list) option" where
  "withTx_loop done tr [] = None"
| "withTx_loop done tr (e # es) =
     (case beginR e of
        Some err \<Rightarrow> Some (Returned (Some err), tr @ [Begin])
      | None \<Rightarrow>
          (case execR e of
             Some err \<Rightarrow> Some (deferred done (Some err) e (tr @ [Begin, setIsolation]))
           | None \<Rightarrow>
               (case fR e of
                  Panics \<Rightarrow>
                    Some (Panicked,
                      tr @ [Begin, setIsolation, CallF] @ (if \<not> done then [Rollback] else []))
                | Returns r \<Rightarrow>
                    (let (err, done', tr') =
                           (if r = None
                            then (commitR e, True, tr @ [Begin, setIsolation, CallF, Commit])
                            else (r, done, tr @ [Begin, setIsolation, CallF]))
                     in if isSerializationFailure err
                        then (case rollbackR e of
                                Some err2 \<Rightarrow> Some (deferred done' (Some err2) e (tr' @ [Rollback]))
                              | None \<Rightarrow> withTx_loop done' (tr' @ [Rollback]) es)
                        else Some (deferred done' err e tr')))))"

definition withTx :: "txEnv list \<Rightarrow> (result \<times> event list) option" where
  "withTx env = withTx_loop False [] env"

section \<open>The in-memory backend: the namespace\<close>

subsection \<open>Objects and the store\<close>

text \<open>
  The backend is a graph of objects that point at each other, and the operations change
  them in place. An object lives in a store at an address; a pointer is an address, and
  a handle a client holds is the address of the object. Go collects garbage, so a
  pointer that is not nil always leads to its object: each kind of object has a total
  map from addresses, and a new object takes the address \<open>nextAddr\<close>.

  A data dictionary \<^verbatim>\<open>map[string]interface{}\<close> is a partial map; so are the maps from
  names to pointers, which never hold a nil pointer, so that reading nil out of one
  means that the key is absent.
\<close>

type_synonym addr = nat
type_synonym dict = "string \<rightharpoonup> val"

text \<open>
  Modelled from the spec: the types \<^verbatim>\<open>workSpec\<close>, \<^verbatim>\<open>worker\<close> and \<^verbatim>\<open>memCoordinate\<close> and the
  constructors \<^verbatim>\<open>newWorkSpec\<close> and \<^verbatim>\<open>newWorker\<close>, which the namespace uses and whose
  declarations are in files of the package that are not at hand. A work spec has a name,
  a data dictionary, metadata derived from it (priority, default 0, and weight,
  default 20) and its work units; a work unit has data and at most one active attempt.
  A worker has a name. The coordinator has the map of its namespaces, which
  \<^verbatim>\<open>namespace.Destroy\<close> reaches as \<^verbatim>\<open>ns.coordinate.namespaces\<close>.
\<close>

record WorkSpecMeta =
  Priority :: int
  Weight :: int

record workUnit =
  unitData :: dict
  activeAttempt :: "addr option"

record workSpec =
  specName :: string
  specNamespace :: addr
  specData :: dict
  specMeta :: WorkSpecMeta
  workUnits :: "string \<rightharpoonup> workUnit"

record worker =
  workerName :: string
  workerNamespace :: addr

record memCoordinate =
  namespaces :: "string \<rightharpoonup> addr"

text \<open>The struct \<^verbatim>\<open>namespace\<close> of the source, field by field.\<close>

record namespace =
  name :: string
  coordinate :: addr
  workSpecs :: "string \<rightharpoonup> addr"
  workers :: "string \<rightharpoonup> addr"

record store =
  coordH :: "addr \<Rightarrow> memCoordinate"
  nsH :: "addr \<Rightarrow> namespace"
  specH :: "addr \<Rightarrow> workSpec"
  workerH :: "addr \<Rightarrow> worker"
  nextAddr :: addr

definition newWorkSpec :: "addr \<Rightarrow> string \<Rightarrow> store \<Rightarrow> addr \<times> store" where
  "newWorkSpec ns n h =
     (nextAddr h,
      h\<lparr>specH := (specH h)(nextAddr h :=
             \<lparr>specName = n, specNamespace = ns, specData = Map.empty,
              specMeta = \<lparr>Priority = 0, Weight = 20\<rparr>, workUnits = Map.empty\<rparr>),
        nextAddr := Suc (nextAddr h)\<rparr>)"

definition newWorker :: "addr \<Rightarrow> string \<Rightarrow> store \<Rightarrow> addr \<times> store" where
  "newWorker ns n h =
     (nextAddr h,
      h\<lparr>workerH := (workerH h)(nextAddr h := \<lparr>workerName = n, workerNamespace = ns\<rparr>),
        nextAddr := Suc (nextAddr h)\<rparr>)"

text \<open>
  Modelled from the spec: \<^verbatim>\<open>workSpec.setData\<close>, a method of the missing type. The spec
  says that the data is replaced and the derived metadata recomputed, that the work units
  are preserved, and that data failing validation is rejected: the weight must be a
  positive integer and is 20 when absent, the priority is 0 when absent. The spec names
  no error for rejected data.
\<close>

definition setData :: "workSpec \<Rightarrow> dict \<Rightarrow> error option \<times> workSpec" where
  "setData spec d =
     (let p = (case d ''priority'' of Some (VInt i) \<Rightarrow> i | _ \<Rightarrow> 0)
      in case d ''weight'' of
           None \<Rightarrow> (None, spec\<lparr>specData := d, specMeta := \<lparr>Priority = p, Weight = 20\<rparr>\<rparr>)
         | Some (VInt w) \<Rightarrow>
             (if 0 < w
              then (None, spec\<lparr>specData := d, specMeta := \<lparr>Priority = p, Weight = w\<rparr>\<rparr>)
              else (Some (OtherError ''invalid weight''), spec))
         | Some _ \<Rightarrow> (Some (OtherError ''invalid weight''), spec))"


subsection \<open>The operations of memory's namespace\<close>

text \<open>
  Each operation takes the receiver \<open>ns\<close> and the store and returns its result with the
  store it leaves. A result (value, error) of the source is a sum: \<open>Inl\<close> the error,
  \<open>Inr\<close> the value. The global lock is not modelled: one operation runs at a time.
\<close>

definition Destroy :: "addr \<Rightarrow> store \<Rightarrow> error option \<times> store" where
  "Destroy ns h =
     (let c = coordinate (nsH h ns)
      in (None,
          h\<lparr>coordH := (coordH h)(c :=
               (coordH h c)\<lparr>namespaces := (namespaces (coordH h c))(name (nsH h ns) := None)\<rparr>)\<rparr>))"

text \<open>
  \<open>SetWorkSpec\<close> takes \<open>setData\<close> as a parameter. Indexing the dictionary gives nil when
  the key is absent and the value otherwise; the type assertion to string follows. The
  spec object is changed in place by \<open>setData\<close>, whether it reports an error or not.
\<close>

definition SetWorkSpec ::
  "(workSpec \<Rightarrow> dict \<Rightarrow> error option \<times> workSpec) \<Rightarrow> addr \<Rightarrow> dict \<Rightarrow> store
     \<Rightarrow> (error + addr) \<times> store" where
  "SetWorkSpec sd ns workSpec h =
     (let nameI = (case workSpec ''name'' of None \<Rightarrow> VNil | Some v \<Rightarrow> v)
      in case nameI of
           VNil \<Rightarrow> (Inl ErrNoWorkSpecName, h)
         | VString n \<Rightarrow>
             (let (spec, h1) =
                    (case workSpecs (nsH h ns) n of
                       Some spec \<Rightarrow> (spec, h)
                     | None \<Rightarrow>
                         (let (spec, h') = newWorkSpec ns n h
                          in (spec,
                              h'\<lparr>nsH := (nsH h')(ns :=
                                   (nsH h' ns)\<lparr>workSpecs := (workSpecs (nsH h' ns))(n \<mapsto> spec)\<rparr>)\<rparr>)));
                  (err, spec') = sd (specH h1 spec) workSpec;
                  h2 = h1\<lparr>specH := (specH h1)(spec := spec')\<rparr>
              in case err of
                   Some e \<Rightarrow> (Inl e, h2)
                 | None \<Rightarrow> (Inr spec, h2))
         | _ \<Rightarrow> (Inl ErrBadWorkSpecName, h))"

definition WorkSpec :: "addr \<Rightarrow> string \<Rightarrow> store \<Rightarrow> (error + addr) \<times> store" where
  "WorkSpec ns n h =
     (case workSpecs (nsH h ns) n of
        None \<Rightarrow> (Inl (ErrNoSuchWorkSpec n), h)
      | Some workSpec \<Rightarrow> (Inr workSpec, h))"

definition DestroyWorkSpec :: "addr \<Rightarrow> string \<Rightarrow> store \<Rightarrow> error option \<times> store" where
  "DestroyWorkSpec ns n h =
     (case workSpecs (nsH h ns) n of
        Some _ \<Rightarrow>
          (None, h\<lparr>nsH := (nsH h)(ns := (nsH h ns)\<lparr>workSpecs := (workSpecs (nsH h ns))(n := None)\<rparr>)\<rparr>)
      | None \<Rightarrow> (Some (ErrNoSuchWorkSpec n), h))"

definition Worker :: "addr \<Rightarrow> string \<Rightarrow> store \<Rightarrow> (error + addr) \<times> store" where
  "Worker ns n h =
     (case workers (nsH h ns) n of
        Some worker \<Rightarrow> (Inr worker, h)
      | None \<Rightarrow>
          (let (worker, h') = newWorker ns n h
           in (Inr worker,
               h'\<lparr>nsH := (nsH h')(ns :=
                    (nsH h' ns)\<lparr>workers := (workers (nsH h' ns))(n \<mapsto> worker)\<rparr>)\<rparr>)))"

text \<open>\<open>Workers\<close> copies the map entry by entry into a new map, which is then the same map.\<close>

definition Workers :: "addr \<Rightarrow> store \<Rightarrow> (error + (string \<rightharpoonup> addr)) \<times> store" where
  "Workers ns h = (Inr (workers (nsH h ns)), h)"

section \<open>Terms used to state the properties\<close>

subsection \<open>Passes of the loop of withTx\<close>






definition conflictAtCommitPass :: txEnv where
  "conflictAtCommitPass =
     \<lparr>beginR = None, execR = None, fR = Returns None, commitR = Some (PqError ''40001''),
      rollbackR = None\<rparr>"




definition failurePass :: txEnv where
  "failurePass =
     \<lparr>beginR = None, execR = None, fR = Returns (Some (OtherError ''no such row'')),
      commitR = None, rollbackR = None\<rparr>"

subsection \<open>Stores and dictionaries\<close>

text \<open>
  \<open>store0\<close>: a coordinator at address 0 with two namespaces, the default one (named by the
  empty string) at address 2 and \<open>test\<close> at address 8, both empty. \<open>store1\<close>: the same
  with two work specs \<open>s1\<close> and \<open>s2\<close> and a worker \<open>w\<close> in the default namespace; the
  unit \<open>u1\<close> of \<open>s1\<close> has an active attempt.
\<close>

definition store0 :: store where
  "store0 =
     \<lparr>coordH = (\<lambda>_. \<lparr>namespaces = [[] \<mapsto> 2, ''test'' \<mapsto> 8]\<rparr>),
      nsH = (\<lambda>_. \<lparr>name = [], coordinate = 0, workSpecs = Map.empty, workers = Map.empty\<rparr>),
      specH = (\<lambda>_. \<lparr>specName = [], specNamespace = 2, specData = Map.empty,
                     specMeta = \<lparr>Priority = 0, Weight = 20\<rparr>, workUnits = Map.empty\<rparr>),
      workerH = (\<lambda>_. \<lparr>workerName = [], workerNamespace = 2\<rparr>),
      nextAddr = 9\<rparr>"

definition store1 :: store where
  "store1 =
     store0\<lparr>nsH := (nsH store0)(2 :=
               \<lparr>name = [], coordinate = 0, workSpecs = [''s1'' \<mapsto> 3, ''s2'' \<mapsto> 4],
                workers = [''w'' \<mapsto> 5]\<rparr>),
            specH := (specH store0)
              (3 := \<lparr>specName = ''s1'', specNamespace = 2,
                     specData = [''name'' \<mapsto> VString ''s1''],
                     specMeta = \<lparr>Priority = 0, Weight = 20\<rparr>,
                     workUnits = [''u1'' \<mapsto> \<lparr>unitData = Map.empty, activeAttempt = Some 6\<rparr>]\<rparr>,
               4 := \<lparr>specName = ''s2'', specNamespace = 2,
                     specData = [''name'' \<mapsto> VString ''s2''],
                     specMeta = \<lparr>Priority = 0, Weight = 20\<rparr>, workUnits = Map.empty\<rparr>),
            workerH := (workerH store0)(5 := \<lparr>workerName = ''w'', workerNamespace = 2\<rparr>)\<rparr>"

text \<open>The dictionary whose only entry is \<open>name\<close>, and a \<open>setData\<close> that rejects everything.\<close>

definition dictNamed :: "val \<Rightarrow> dict" where
  "dictNamed v = [''name'' \<mapsto> v]"

definition rejectAll :: "workSpec \<Rightarrow> dict \<Rightarrow> error option \<times> workSpec" where
  "rejectAll spec d = (Some (OtherError ''rejected''), spec)"

section \<open>Properties of cborrpc/cleanup.go\<close>

lemma SloppyDetuplify_tuple: "SloppyDetuplify (VTuple items) = items"
  by (simp add: SloppyDetuplify_def)

lemma SloppyDetuplify_slice: "SloppyDetuplify (VSlice s) = s"
  by (simp add: SloppyDetuplify_def)

lemma SloppyDetuplify_other:
  "snd (Detuplify obj) = False \<Longrightarrow> SloppyDetuplify obj = [obj]"
  by (cases obj) (simp_all add: SloppyDetuplify_def)

lemma Detuplify_ok_iff:
  "snd (Detuplify obj) \<longleftrightarrow> (\<exists>xs. obj = VTuple xs \<or> obj = VSlice xs)"
  by (cases obj) simp_all

text \<open>
  Claim C9. \<open>SloppyDetuplify\<close> is a total function: on a \<open>PythonTuple\<close> it returns the
  tuple's items, on a slice the slice itself, and on every other value \<open>v\<close> the
  one-element slice \<open>[v]\<close>. Its result is the slice \<open>Detuplify\<close> returns exactly on the
  inputs where \<open>Detuplify\<close> reports success.
\<close>

theorem SloppyDetuplify_total:
  "SloppyDetuplify (VTuple items) = items
   \<and> SloppyDetuplify (VSlice s) = s
   \<and> ((\<forall>xs. v \<noteq> VTuple xs \<and> v \<noteq> VSlice xs) \<longrightarrow> SloppyDetuplify v = [v])
   \<and> (SloppyDetuplify v = fst (Detuplify v) \<longleftrightarrow> snd (Detuplify v))"
proof -
  have other: "(\<forall>xs. v \<noteq> VTuple xs \<and> v \<noteq> VSlice xs) \<longrightarrow> SloppyDetuplify v = [v]"
    using SloppyDetuplify_other [of v] Detuplify_ok_iff [of v] by blast
  have agree: "SloppyDetuplify v = fst (Detuplify v) \<longleftrightarrow> snd (Detuplify v)"
    by (cases v) (simp_all add: SloppyDetuplify_def)
  from other agree show ?thesis
    by (simp add: SloppyDetuplify_tuple SloppyDetuplify_slice)
qed

theorem SloppyDetuplify_total_witness:
  "SloppyDetuplify (VTuple [VInt 1, VString ''a'']) = [VInt 1, VString ''a'']
   \<and> SloppyDetuplify (VSlice [VNil]) = [VNil]
   \<and> (\<forall>xs. VInt 7 \<noteq> VTuple xs \<and> VInt 7 \<noteq> VSlice xs)
   \<and> SloppyDetuplify (VInt 7) = [VInt 7]
   \<and> \<not> snd (Detuplify (VInt 7))
   \<and> SloppyDetuplify (VInt 7) \<noteq> fst (Detuplify (VInt 7))"
  using SloppyDetuplify_total [of "[VInt 1, VString ''a'']" "[VNil]" "VInt 7"]
  by simp

section \<open>Properties of the SameTime checker\<close>

lemma sint_word_of_int_64:
  "- (2 ^ 63) \<le> k \<Longrightarrow> k < 2 ^ 63 \<Longrightarrow> sint (word_of_int k :: 64 word) = k"
  by (simp add: sint_sbintrunc' signed_take_bit_int_eq_self)

lemma sint_Sub:
  "sint (Sub t u) =
     (if t - u < - (2 ^ 63) then - (2 ^ 63)
      else if 2 ^ 63 - 1 < t - u then 2 ^ 63 - 1 else t - u)"
proof -
  have lo: "sint (word_of_int (- (2 ^ 63)) :: 64 word) = - (2 ^ 63)"
    by (rule sint_word_of_int_64) simp_all
  have hi: "sint (word_of_int (2 ^ 63 - 1) :: 64 word) = 2 ^ 63 - 1"
    by (rule sint_word_of_int_64) simp_all
  have mid: "\<not> t - u < - (2 ^ 63) \<Longrightarrow> \<not> 2 ^ 63 - 1 < t - u
      \<Longrightarrow> sint (word_of_int (t - u) :: 64 word) = t - u"
    by (rule sint_word_of_int_64) simp_all
  show ?thesis
    unfolding Sub_def Let_def using lo hi mid by presburger
qed

lemma sint_maxDelta:
  "sint ((1 :: Duration) * Microsecond) = 1000"
  "sint (- ((1 :: Duration) * Microsecond)) = - 1000"
  by (simp_all add: Microsecond_def)

lemma Check_times:
  "fst (sameTimeChecker_Check [VTime a, VTime b] names) \<longleftrightarrow> \<bar>a - b\<bar> < 1000"
  unfolding sameTimeChecker_Check_def Let_def word_sless_alt sint_Sub sint_maxDelta
  by (simp add: abs_less_iff) linarith

text \<open>
  Claim C10. On a pair of times the SameTime checker answers true exactly when the two
  times are less than one microsecond (1000 nanoseconds) apart. So it does not depend on
  the order of the two times, it accepts a time paired with itself, and it rejects two
  times that are one microsecond apart.
\<close>

theorem SameTime_iff_within_microsecond:
  "(fst (sameTimeChecker_Check [VTime a, VTime b] names) \<longleftrightarrow> \<bar>a - b\<bar> < 1000)
   \<and> fst (sameTimeChecker_Check [VTime a, VTime b] names)
       = fst (sameTimeChecker_Check [VTime b, VTime a] names)
   \<and> fst (sameTimeChecker_Check [VTime a, VTime a] names)
   \<and> \<not> fst (sameTimeChecker_Check [VTime (a + 1000), VTime a] names)
   \<and> \<not> fst (sameTimeChecker_Check [VTime a, VTime (a + 1000)] names)"
  unfolding Check_times by (simp add: abs_minus_commute)

theorem SameTime_iff_within_microsecond_witness:
  "fst (sameTimeChecker_Check [VTime 5, VTime 1004] [])
   \<and> \<not> fst (sameTimeChecker_Check [VTime 5, VTime 1005] [])
   \<and> \<not> fst (sameTimeChecker_Check [VTime 1005, VTime 5] [])"
  using SameTime_iff_within_microsecond [of 5 1004 "[]"]
    SameTime_iff_within_microsecond [of 5 1005 "[]"]
    SameTime_iff_within_microsecond [of 1005 5 "[]"]
  by simp

section \<open>Properties of NewWithClock\<close>




section \<open>Properties of withTx\<close>











text \<open>
  \<open>done\<close> is never cleared. When a pass ends in a \<^verbatim>\<open>Commit\<close> that answers 40001 and
  the loop goes round, a later failure of \<open>f\<close> leaves its transaction without a
  \<^verbatim>\<open>Rollback\<close>: the trace ends with the call of \<open>f\<close>.
\<close>

lemma withTx_stale_done:
  "withTx [conflictAtCommitPass, failurePass]
     = Some (Returned (Some (OtherError ''no such row'')),
             [Begin, setIsolation, CallF, Commit, Rollback, Begin, setIsolation, CallF])"
  by (simp add: withTx_def conflictAtCommitPass_def failurePass_def deferred_def)

section \<open>Properties of the namespace of the in-memory backend\<close>

subsection \<open>SetWorkSpec\<close>

lemma SetWorkSpec_no_name:
  "d ''name'' = None \<or> d ''name'' = Some VNil
     \<Longrightarrow> SetWorkSpec sd ns d h = (Inl ErrNoWorkSpecName, h)"
  by (auto simp add: SetWorkSpec_def)

lemma SetWorkSpec_bad_name:
  "d ''name'' = Some v \<Longrightarrow> v \<noteq> VNil \<Longrightarrow> \<forall>n. v \<noteq> VString n
     \<Longrightarrow> SetWorkSpec sd ns d h = (Inl ErrBadWorkSpecName, h)"
  by (cases v) (simp_all add: SetWorkSpec_def)

lemma SetWorkSpec_existing:
  assumes "d ''name'' = Some (VString n)" and "workSpecs (nsH h ns) n = Some a"
  shows "SetWorkSpec sd ns d h =
     (case fst (sd (specH h a) d) of Some e \<Rightarrow> Inl e | None \<Rightarrow> Inr a,
      h\<lparr>specH := (specH h)(a := snd (sd (specH h a) d))\<rparr>)"
  using assms
  by (simp add: SetWorkSpec_def Let_def split: prod.split option.split)

lemma SetWorkSpec_new:
  assumes "d ''name'' = Some (VString n)" and "workSpecs (nsH h ns) n = None"
  shows "fst (SetWorkSpec sd ns d h) =
     (case fst (sd (specH (snd (newWorkSpec ns n h)) (nextAddr h)) d) of
        Some e \<Rightarrow> Inl e | None \<Rightarrow> Inr (nextAddr h))"
    and "workSpecs (nsH (snd (SetWorkSpec sd ns d h)) ns) = (workSpecs (nsH h ns))(n \<mapsto> nextAddr h)"
    and "specH (snd (SetWorkSpec sd ns d h)) (nextAddr h)
           = snd (sd (specH (snd (newWorkSpec ns n h)) (nextAddr h)) d)"
  using assms
  by (simp_all add: SetWorkSpec_def newWorkSpec_def Let_def split: prod.split option.split)

text \<open>
  The new spec is put in the namespace's map before \<open>setData\<close> is called. So after any
  call whose dictionary holds a string under \<open>name\<close>, failed or not, the namespace has a
  spec of that name.
\<close>

lemma SetWorkSpec_registers:
  "d ''name'' = Some (VString n)
     \<Longrightarrow> workSpecs (nsH (snd (SetWorkSpec sd ns d h)) ns) n \<noteq> None"
  by (cases "workSpecs (nsH h ns) n") (simp_all add: SetWorkSpec_existing SetWorkSpec_new)

text \<open>
  Claim C1, as the code has it, for every \<open>setData\<close>. \<open>SetWorkSpec\<close> returns
  \<open>ErrNoWorkSpecName\<close> when the dictionary has no \<open>name\<close> or has nil under it, and
  \<open>ErrBadWorkSpecName\<close> when the value under \<open>name\<close> is neither nil nor a string; in both
  cases the store is as before. When the value is a string, the empty one included, the
  two checks pass: the call fails exactly when \<open>setData\<close> reports an error, with that
  error, and otherwise returns the spec of that name, the existing one or a new one.
\<close>

theorem SetWorkSpec_name_checks:
  "((d ''name'' = None \<or> d ''name'' = Some VNil) \<longrightarrow>
       SetWorkSpec sd ns d h = (Inl ErrNoWorkSpecName, h))
   \<and> (\<forall>v. d ''name'' = Some v \<and> v \<noteq> VNil \<and> (\<forall>n. v \<noteq> VString n) \<longrightarrow>
         SetWorkSpec sd ns d h = (Inl ErrBadWorkSpecName, h))
   \<and> (\<forall>n a. d ''name'' = Some (VString n) \<and> workSpecs (nsH h ns) n = Some a \<longrightarrow>
         fst (SetWorkSpec sd ns d h)
           = (case fst (sd (specH h a) d) of Some e \<Rightarrow> Inl e | None \<Rightarrow> Inr a))
   \<and> (\<forall>n. d ''name'' = Some (VString n) \<and> workSpecs (nsH h ns) n = None \<longrightarrow>
         fst (SetWorkSpec sd ns d h)
           = (case fst (sd (specH (snd (newWorkSpec ns n h)) (nextAddr h)) d) of
                Some e \<Rightarrow> Inl e | None \<Rightarrow> Inr (nextAddr h)))"
proof -
  have absent: "(d ''name'' = None \<or> d ''name'' = Some VNil) \<longrightarrow>
       SetWorkSpec sd ns d h = (Inl ErrNoWorkSpecName, h)"
    using SetWorkSpec_no_name by blast
  have bad: "\<forall>v. d ''name'' = Some v \<and> v \<noteq> VNil \<and> (\<forall>n. v \<noteq> VString n) \<longrightarrow>
         SetWorkSpec sd ns d h = (Inl ErrBadWorkSpecName, h)"
    using SetWorkSpec_bad_name by blast
  have old: "\<forall>n a. d ''name'' = Some (VString n) \<and> workSpecs (nsH h ns) n = Some a \<longrightarrow>
         fst (SetWorkSpec sd ns d h)
           = (case fst (sd (specH h a) d) of Some e \<Rightarrow> Inl e | None \<Rightarrow> Inr a)"
    by (simp add: SetWorkSpec_existing)
  have new: "\<forall>n. d ''name'' = Some (VString n) \<and> workSpecs (nsH h ns) n = None \<longrightarrow>
         fst (SetWorkSpec sd ns d h)
           = (case fst (sd (specH (snd (newWorkSpec ns n h)) (nextAddr h)) d) of
                Some e \<Rightarrow> Inl e | None \<Rightarrow> Inr (nextAddr h))"
    by (simp add: SetWorkSpec_new)
  from absent bad old new show ?thesis
    by (intro conjI)
qed

lemma setData_no_weight:
  "d ''weight'' = None \<Longrightarrow> fst (setData spec d) = None \<and> specData (snd (setData spec d)) = d"
  by (simp add: setData_def Let_def)

theorem SetWorkSpec_name_checks_witness:
  "SetWorkSpec setData 2 Map.empty store1 = (Inl ErrNoWorkSpecName, store1)
   \<and> SetWorkSpec setData 2 (dictNamed VNil) store1 = (Inl ErrNoWorkSpecName, store1)
   \<and> SetWorkSpec setData 2 (dictNamed (VInt 7)) store1 = (Inl ErrBadWorkSpecName, store1)
   \<and> fst (SetWorkSpec setData 2 (dictNamed (VString ''s1'')) store1) = Inr 3
   \<and> fst (SetWorkSpec setData 2 (dictNamed (VString ''s3'')) store1) = Inr 9"
proof -
  have s1: "workSpecs (nsH store1 2) ''s1'' = Some 3"
    and s3: "workSpecs (nsH store1 2) ''s3'' = None"
    and fresh: "nextAddr store1 = 9"
    by (simp_all add: store1_def store0_def)
  have names: "dictNamed v ''name'' = Some v" "dictNamed v ''weight'' = None" for v
    by (simp_all add: dictNamed_def)
  have ok: "fst (setData spec (dictNamed v)) = None" for spec v
    using setData_no_weight [of "dictNamed v" spec] names by simp
  have int: "VInt 7 \<noteq> VNil \<and> (\<forall>n. VInt 7 \<noteq> VString n)"
    by simp
  from SetWorkSpec_name_checks [of Map.empty setData 2 store1]
  have a: "SetWorkSpec setData 2 Map.empty store1 = (Inl ErrNoWorkSpecName, store1)"
    by simp
  from SetWorkSpec_name_checks [of "dictNamed VNil" setData 2 store1] names
  have b: "SetWorkSpec setData 2 (dictNamed VNil) store1 = (Inl ErrNoWorkSpecName, store1)"
    by simp
  from SetWorkSpec_name_checks [of "dictNamed (VInt 7)" setData 2 store1] names int
  have c: "SetWorkSpec setData 2 (dictNamed (VInt 7)) store1 = (Inl ErrBadWorkSpecName, store1)"
    by simp
  from SetWorkSpec_name_checks [of "dictNamed (VString ''s1'')" setData 2 store1] names s1 ok
  have d: "fst (SetWorkSpec setData 2 (dictNamed (VString ''s1'')) store1) = Inr 3"
    by simp
  from SetWorkSpec_name_checks [of "dictNamed (VString ''s3'')" setData 2 store1] names s3 ok fresh
  have e: "fst (SetWorkSpec setData 2 (dictNamed (VString ''s3'')) store1) = Inr 9"
    by simp
  from a b c d e show ?thesis
    by simp
qed

text \<open>
  Against C1 as stated. With the empty string as name, on a namespace that has no spec
  of that name, the call succeeds under the \<open>setData\<close> of the spec and is no
  \<open>ErrBadWorkSpecName\<close>; under a \<open>setData\<close> that rejects the data the call fails, and
  the namespace has a new spec all the same. And a dictionary holding nil under \<open>name\<close>
  gets \<open>ErrNoWorkSpecName\<close>, though the key is present.
\<close>

theorem SetWorkSpec_counterexample:
  "workSpecs (nsH store1 2) [] = None
   \<and> fst (SetWorkSpec setData 2 (dictNamed (VString [])) store1) = Inr 9
   \<and> workSpecs (nsH (snd (SetWorkSpec setData 2 (dictNamed (VString [])) store1)) 2) [] = Some 9
   \<and> fst (SetWorkSpec rejectAll 2 (dictNamed (VString [])) store1) = Inl (OtherError ''rejected'')
   \<and> workSpecs (nsH (snd (SetWorkSpec rejectAll 2 (dictNamed (VString [])) store1)) 2) [] = Some 9
   \<and> SetWorkSpec setData 2 (dictNamed VNil) store1 = (Inl ErrNoWorkSpecName, store1)"
proof -
  have none: "workSpecs (nsH store1 2) [] = None"
    and fresh: "nextAddr store1 = 9"
    by (simp_all add: store1_def store0_def)
  have names: "dictNamed v ''name'' = Some v" "dictNamed v ''weight'' = None" for v
    by (simp_all add: dictNamed_def)
  have ok: "fst (setData spec (dictNamed v)) = None" for spec v
    using setData_no_weight [of "dictNamed v" spec] names by simp
  have no: "fst (rejectAll spec d) = Some (OtherError ''rejected'')" for spec d
    by (simp add: rejectAll_def)
  have named: "dictNamed (VString []) ''name'' = Some (VString [])"
    by (rule names)
  note new = SetWorkSpec_new
    [where d = "dictNamed (VString [])" and n = "[]" and h = store1 and ns = 2, OF named none]
  have nil: "SetWorkSpec setData 2 (dictNamed VNil) store1 = (Inl ErrNoWorkSpecName, store1)"
    by (rule SetWorkSpec_no_name) (simp add: names)
  from none new [where sd = setData] new [where sd = rejectAll] nil show ?thesis
    by (simp add: ok no fresh)
qed

subsection \<open>SetWorkSpec followed by WorkSpec\<close>




subsection \<open>WorkSpec and DestroyWorkSpec\<close>

lemma WorkSpec_result:
  "WorkSpec ns n h =
     (case workSpecs (nsH h ns) n of None \<Rightarrow> (Inl (ErrNoSuchWorkSpec n), h) | Some a \<Rightarrow> (Inr a, h))"
  by (simp add: WorkSpec_def)

lemma DestroyWorkSpec_absent:
  "workSpecs (nsH h ns) n = None \<Longrightarrow> DestroyWorkSpec ns n h = (Some (ErrNoSuchWorkSpec n), h)"
  by (simp add: DestroyWorkSpec_def)

lemma DestroyWorkSpec_present:
  assumes "workSpecs (nsH h ns) n = Some a"
  shows "fst (DestroyWorkSpec ns n h) = None"
    and "workSpecs (nsH (snd (DestroyWorkSpec ns n h)) ns) = (workSpecs (nsH h ns))(n := None)"
    and "workers (nsH (snd (DestroyWorkSpec ns n h)) ns) = workers (nsH h ns)"
    and "name (nsH (snd (DestroyWorkSpec ns n h)) ns) = name (nsH h ns)"
    and "coordinate (nsH (snd (DestroyWorkSpec ns n h)) ns) = coordinate (nsH h ns)"
    and "ns' \<noteq> ns \<Longrightarrow> nsH (snd (DestroyWorkSpec ns n h)) ns' = nsH h ns'"
    and "specH (snd (DestroyWorkSpec ns n h)) = specH h"
    and "workerH (snd (DestroyWorkSpec ns n h)) = workerH h"
    and "coordH (snd (DestroyWorkSpec ns n h)) = coordH h"
    and "nextAddr (snd (DestroyWorkSpec ns n h)) = nextAddr h"
  using assms by (simp_all add: DestroyWorkSpec_def)

text \<open>
  Claim C4. \<open>WorkSpec n\<close> and \<open>DestroyWorkSpec n\<close> return \<open>ErrNoSuchWorkSpec n\<close> exactly
  when the namespace has no spec named \<open>n\<close>, they return no other error, and they leave
  the store as it is in that case. When the spec exists, whatever it holds (work units
  with active attempts included), \<open>DestroyWorkSpec n\<close> returns no error and removes the
  entry \<open>n\<close>: every other entry of the namespace, its workers, the other namespaces and
  all spec, worker and coordinator objects are unchanged.
\<close>

theorem NoSuchWorkSpec_iff_absent:
  "(fst (WorkSpec ns n h) = Inl (ErrNoSuchWorkSpec n) \<longleftrightarrow> workSpecs (nsH h ns) n = None)
   \<and> (\<forall>e. fst (WorkSpec ns n h) = Inl e \<longrightarrow> e = ErrNoSuchWorkSpec n)
   \<and> snd (WorkSpec ns n h) = h
   \<and> (fst (DestroyWorkSpec ns n h) = Some (ErrNoSuchWorkSpec n) \<longleftrightarrow> workSpecs (nsH h ns) n = None)
   \<and> (\<forall>e. fst (DestroyWorkSpec ns n h) = Some e \<longrightarrow> e = ErrNoSuchWorkSpec n)
   \<and> (workSpecs (nsH h ns) n = None \<longrightarrow> snd (DestroyWorkSpec ns n h) = h)
   \<and> (workSpecs (nsH h ns) n \<noteq> None \<longrightarrow>
        fst (DestroyWorkSpec ns n h) = None
        \<and> workSpecs (nsH (snd (DestroyWorkSpec ns n h)) ns) n = None
        \<and> (\<forall>m. m \<noteq> n \<longrightarrow>
              workSpecs (nsH (snd (DestroyWorkSpec ns n h)) ns) m = workSpecs (nsH h ns) m)
        \<and> workers (nsH (snd (DestroyWorkSpec ns n h)) ns) = workers (nsH h ns)
        \<and> (\<forall>ns'. ns' \<noteq> ns \<longrightarrow> nsH (snd (DestroyWorkSpec ns n h)) ns' = nsH h ns')
        \<and> specH (snd (DestroyWorkSpec ns n h)) = specH h
        \<and> workerH (snd (DestroyWorkSpec ns n h)) = workerH h
        \<and> coordH (snd (DestroyWorkSpec ns n h)) = coordH h)"
proof (cases "workSpecs (nsH h ns) n")
  case None
  then show ?thesis
    by (simp add: WorkSpec_result DestroyWorkSpec_absent)
next
  case (Some a)
  then show ?thesis
    by (simp add: WorkSpec_result DestroyWorkSpec_present)
qed

theorem NoSuchWorkSpec_iff_absent_witness:
  "workSpecs (nsH store1 2) ''s1'' = Some 3
   \<and> workUnits (specH store1 3) ''u1'' = Some \<lparr>unitData = Map.empty, activeAttempt = Some 6\<rparr>
   \<and> fst (WorkSpec 2 ''s1'' store1) = Inr 3
   \<and> fst (DestroyWorkSpec 2 ''s1'' store1) = None
   \<and> workSpecs (nsH (snd (DestroyWorkSpec 2 ''s1'' store1)) 2) ''s1'' = None
   \<and> workSpecs (nsH (snd (DestroyWorkSpec 2 ''s1'' store1)) 2) ''s2'' = Some 4
   \<and> workSpecs (nsH store1 2) ''s3'' = None
   \<and> fst (WorkSpec 2 ''s3'' store1) = Inl (ErrNoSuchWorkSpec ''s3'')
   \<and> fst (DestroyWorkSpec 2 ''s3'' store1) = Some (ErrNoSuchWorkSpec ''s3'')"
proof -
  have s1: "workSpecs (nsH store1 2) ''s1'' = Some 3"
    and s2: "workSpecs (nsH store1 2) ''s2'' = Some 4"
    and s3: "workSpecs (nsH store1 2) ''s3'' = None"
    and u1: "workUnits (specH store1 3) ''u1''
               = Some \<lparr>unitData = Map.empty, activeAttempt = Some 6\<rparr>"
    by (simp_all add: store1_def store0_def)
  have found: "fst (WorkSpec 2 ''s1'' store1) = Inr 3"
    by (simp add: WorkSpec_def s1)
  have other: "''s2'' \<noteq> ''s1''"
    by simp
  note present = NoSuchWorkSpec_iff_absent [of 2 "''s1''" store1]
  note absent = NoSuchWorkSpec_iff_absent [of 2 "''s3''" store1]
  from s1 have here: "workSpecs (nsH store1 2) ''s1'' \<noteq> None"
    by simp
  from present here have gone: "fst (DestroyWorkSpec 2 ''s1'' store1) = None"
    "workSpecs (nsH (snd (DestroyWorkSpec 2 ''s1'' store1)) 2) ''s1'' = None"
    by blast+
  from present here have frame: "\<forall>m. m \<noteq> ''s1'' \<longrightarrow>
      workSpecs (nsH (snd (DestroyWorkSpec 2 ''s1'' store1)) 2) m = workSpecs (nsH store1 2) m"
    by simp
  from frame [rule_format, OF other] s2 have kept:
    "workSpecs (nsH (snd (DestroyWorkSpec 2 ''s1'' store1)) 2) ''s2'' = Some 4"
    by simp
  from absent s3 have missing: "fst (WorkSpec 2 ''s3'' store1) = Inl (ErrNoSuchWorkSpec ''s3'')"
    "fst (DestroyWorkSpec 2 ''s3'' store1) = Some (ErrNoSuchWorkSpec ''s3'')"
    by blast+
  from s1 u1 found gone kept s3 missing show ?thesis
    by simp
qed

subsection \<open>Worker and Workers\<close>

lemma Worker_present:
  "workers (nsH h ns) n = Some w \<Longrightarrow> Worker ns n h = (Inr w, h)"
  by (simp add: Worker_def)

lemma Worker_absent:
  assumes "workers (nsH h ns) n = None"
  shows "fst (Worker ns n h) = Inr (nextAddr h)"
    and "workers (nsH (snd (Worker ns n h)) ns) = (workers (nsH h ns))(n \<mapsto> nextAddr h)"
    and "workerName (workerH (snd (Worker ns n h)) (nextAddr h)) = n"
  using assms by (simp_all add: Worker_def newWorker_def)

lemma Worker_registered:
  "\<exists>w. fst (Worker ns n h) = Inr w \<and> workers (nsH (snd (Worker ns n h)) ns) n = Some w"
proof (cases "workers (nsH h ns) n")
  case None
  then show ?thesis by (simp add: Worker_absent)
next
  case (Some w)
  then show ?thesis by (simp add: Worker_present)
qed

text \<open>
  Claim C5. \<open>Worker n\<close> never returns an error. The worker it returns is registered
  under \<open>n\<close> afterwards, a second \<open>Worker n\<close> returns the same worker and changes
  nothing, and \<open>Workers\<close> then returns a map that has this worker under \<open>n\<close>. If a worker
  named \<open>n\<close> existed it is the one returned and the store is unchanged; if none existed,
  the worker is a new object named \<open>n\<close>, added to the namespace's map.
\<close>

theorem Worker_lazy_create:
  "(\<exists>w. fst (Worker ns n h) = Inr w
      \<and> workers (nsH (snd (Worker ns n h)) ns) n = Some w
      \<and> Worker ns n (snd (Worker ns n h)) = (Inr w, snd (Worker ns n h))
      \<and> (\<exists>m. Workers ns (snd (Worker ns n h)) = (Inr m, snd (Worker ns n h)) \<and> m n = Some w))
   \<and> (\<forall>w. workers (nsH h ns) n = Some w \<longrightarrow> Worker ns n h = (Inr w, h))
   \<and> (workers (nsH h ns) n = None \<longrightarrow>
        fst (Worker ns n h) = Inr (nextAddr h)
        \<and> workerName (workerH (snd (Worker ns n h)) (nextAddr h)) = n
        \<and> workers (nsH (snd (Worker ns n h)) ns) = (workers (nsH h ns))(n \<mapsto> nextAddr h))"
proof -
  obtain w where w: "fst (Worker ns n h) = Inr w"
    "workers (nsH (snd (Worker ns n h)) ns) n = Some w"
    using Worker_registered by blast
  have again: "Worker ns n (snd (Worker ns n h)) = (Inr w, snd (Worker ns n h))"
    using w(2) by (rule Worker_present)
  have listed: "Workers ns (snd (Worker ns n h))
      = (Inr (workers (nsH (snd (Worker ns n h)) ns)), snd (Worker ns n h))"
    by (simp add: Workers_def)
  have always: "\<exists>w. fst (Worker ns n h) = Inr w
      \<and> workers (nsH (snd (Worker ns n h)) ns) n = Some w
      \<and> Worker ns n (snd (Worker ns n h)) = (Inr w, snd (Worker ns n h))
      \<and> (\<exists>m. Workers ns (snd (Worker ns n h)) = (Inr m, snd (Worker ns n h)) \<and> m n = Some w)"
    using w again listed by blast
  have existing: "\<forall>w. workers (nsH h ns) n = Some w \<longrightarrow> Worker ns n h = (Inr w, h)"
    by (simp add: Worker_present)
  have created: "workers (nsH h ns) n = None \<longrightarrow>
        fst (Worker ns n h) = Inr (nextAddr h)
        \<and> workerName (workerH (snd (Worker ns n h)) (nextAddr h)) = n
        \<and> workers (nsH (snd (Worker ns n h)) ns) = (workers (nsH h ns))(n \<mapsto> nextAddr h)"
    by (simp add: Worker_absent)
  from always existing created show ?thesis
    by blast
qed

theorem Worker_lazy_create_witness:
  "workers (nsH store1 2) ''w'' = Some 5
   \<and> Worker 2 ''w'' store1 = (Inr 5, store1)
   \<and> workers (nsH store1 2) ''v'' = None
   \<and> fst (Worker 2 ''v'' store1) = Inr 9
   \<and> workers (nsH (snd (Worker 2 ''v'' store1)) 2) ''v'' = Some 9
   \<and> fst (Worker 2 ''v'' (snd (Worker 2 ''v'' store1))) = Inr 9"
proof -
  have old: "workers (nsH store1 2) ''w'' = Some 5"
    and new: "workers (nsH store1 2) ''v'' = None"
    and fresh: "nextAddr store1 = 9"
    by (simp_all add: store1_def store0_def)
  note existing = Worker_lazy_create [of 2 "''w''" store1]
  note created = Worker_lazy_create [of 2 "''v''" store1]
  from existing old have same: "Worker 2 ''w'' store1 = (Inr 5, store1)"
    by simp
  from created new fresh have made: "fst (Worker 2 ''v'' store1) = Inr 9"
    "workers (nsH (snd (Worker 2 ''v'' store1)) 2) = (workers (nsH store1 2))(''v'' \<mapsto> 9)"
    by simp_all
  from made(2) have listed: "workers (nsH (snd (Worker 2 ''v'' store1)) 2) ''v'' = Some 9"
    by simp
  from created made(1) have again: "fst (Worker 2 ''v'' (snd (Worker 2 ''v'' store1))) = Inr 9"
    by auto
  from old same new made(1) listed again show ?thesis
    by simp
qed

subsection \<open>Destroy\<close>

lemma Destroy_store:
  "Destroy ns h =
     (None, h\<lparr>coordH := (coordH h)(coordinate (nsH h ns) :=
        (coordH h (coordinate (nsH h ns)))
          \<lparr>namespaces := (namespaces (coordH h (coordinate (nsH h ns))))
                            (name (nsH h ns) := None)\<rparr>)\<rparr>)"
  by (simp add: Destroy_def Let_def)

lemma WorkSpec_coordH: "fst (WorkSpec ns n (h\<lparr>coordH := c\<rparr>)) = fst (WorkSpec ns n h)"
  by (simp add: WorkSpec_def split: option.split)

lemma DestroyWorkSpec_coordH:
  "fst (DestroyWorkSpec ns n (h\<lparr>coordH := c\<rparr>)) = fst (DestroyWorkSpec ns n h)"
  by (simp add: DestroyWorkSpec_def split: option.split)

lemma Worker_coordH: "fst (Worker ns n (h\<lparr>coordH := c\<rparr>)) = fst (Worker ns n h)"
  by (simp add: Worker_def newWorker_def split: option.split)

lemma Workers_coordH: "fst (Workers ns (h\<lparr>coordH := c\<rparr>)) = fst (Workers ns h)"
  by (simp add: Workers_def)

lemma SetWorkSpec_coordH:
  "fst (SetWorkSpec sd ns d (h\<lparr>coordH := c\<rparr>)) = fst (SetWorkSpec sd ns d h)"
  by (simp add: SetWorkSpec_def newWorkSpec_def Let_def
      split: option.split val.split prod.split)

text \<open>
  Claim C6. \<open>Destroy\<close> returns nil. In the coordinator of \<open>ns\<close> the namespace map loses
  the entry for the name of \<open>ns\<close> and nothing else; every other coordinator, every
  namespace object (that of \<open>ns\<close> included, with its work specs and workers), every
  spec and every worker is unchanged. So the operations called through the handle
  \<open>ns\<close> answer after \<open>Destroy\<close> what they answered before.
\<close>

theorem Destroy_detaches:
  "fst (Destroy ns h) = None
   \<and> namespaces (coordH (snd (Destroy ns h)) (coordinate (nsH h ns)))
       = (namespaces (coordH h (coordinate (nsH h ns))))(name (nsH h ns) := None)
   \<and> (\<forall>c. c \<noteq> coordinate (nsH h ns) \<longrightarrow> coordH (snd (Destroy ns h)) c = coordH h c)
   \<and> nsH (snd (Destroy ns h)) = nsH h
   \<and> specH (snd (Destroy ns h)) = specH h
   \<and> workerH (snd (Destroy ns h)) = workerH h
   \<and> nextAddr (snd (Destroy ns h)) = nextAddr h
   \<and> fst (WorkSpec ns n (snd (Destroy ns h))) = fst (WorkSpec ns n h)
   \<and> fst (DestroyWorkSpec ns n (snd (Destroy ns h))) = fst (DestroyWorkSpec ns n h)
   \<and> fst (Worker ns n (snd (Destroy ns h))) = fst (Worker ns n h)
   \<and> fst (Workers ns (snd (Destroy ns h))) = fst (Workers ns h)
   \<and> fst (SetWorkSpec sd ns d (snd (Destroy ns h))) = fst (SetWorkSpec sd ns d h)"
  unfolding Destroy_store
  by (simp add: WorkSpec_coordH DestroyWorkSpec_coordH Worker_coordH Workers_coordH
      SetWorkSpec_coordH)

theorem Destroy_detaches_witness:
  "namespaces (coordH store1 0) [] = Some 2
   \<and> fst (Destroy 2 store1) = None
   \<and> namespaces (coordH (snd (Destroy 2 store1)) 0) [] = None
   \<and> namespaces (coordH (snd (Destroy 2 store1)) 0) ''test'' = Some 8
   \<and> workSpecs (nsH (snd (Destroy 2 store1)) 2) ''s1'' = Some 3
   \<and> fst (WorkSpec 2 ''s1'' (snd (Destroy 2 store1))) = Inr 3"
proof -
  have ns: "coordinate (nsH store1 2) = 0" "name (nsH store1 2) = []"
    and reg: "namespaces (coordH store1 0) = [[] \<mapsto> 2, ''test'' \<mapsto> 8]"
    and s1: "workSpecs (nsH store1 2) ''s1'' = Some 3"
    by (simp_all add: store1_def store0_def)
  have found: "fst (WorkSpec 2 ''s1'' store1) = Inr 3"
    by (simp add: WorkSpec_def s1)
  note d = Destroy_detaches [of 2 store1 "''s1''"]
  from d ns reg have gone: "fst (Destroy 2 store1) = None"
    "namespaces (coordH (snd (Destroy 2 store1)) 0) = [[] \<mapsto> 2, ''test'' \<mapsto> 8]([] := None)"
    by simp_all
  from d s1 found have kept: "workSpecs (nsH (snd (Destroy 2 store1)) 2) ''s1'' = Some 3"
    "fst (WorkSpec 2 ''s1'' (snd (Destroy 2 store1))) = Inr 3"
    by simp_all
  from reg gone kept show ?thesis
    by simp
qed

end
